theory Spec2Isabelle
  imports Main
begin

section \<open>Values, objects and promises\<close>

text \<open>
  The values the user objects of \<^verbatim>\<open>src/App.tsx\<close> carry. An object is the list of
  its own enumerable properties in insertion order; \<^verbatim>\<open>obj.k\<close> reads the first
  binding of \<open>k\<close>, and a missing property reads as \<open>None\<close> (JavaScript's
  \<^verbatim>\<open>undefined\<close>).
\<close>

datatype jsval = JStr string | JNum int | JBool bool | JNull

type_synonym jsobj = "(string \<times> jsval) list"

definition getProp :: "jsobj \<Rightarrow> string \<Rightarrow> jsval option" where
  "getProp obj k = map_of obj k"

text \<open>
  \<^verbatim>\<open>const { password, ...userWithoutPassword } = user;\<close> (App.tsx, line 76): the
  rest pattern copies every own property but \<^verbatim>\<open>password\<close>.
\<close>

definition userWithoutPassword :: "jsobj \<Rightarrow> jsobj" where
  "userWithoutPassword user = filter (\<lambda>kv. fst kv \<noteq> ''password'') user"

text \<open>
  What \<^verbatim>\<open>await p\<close> gives: the value the promise resolves to, or the exception it
  rejects with (a throw at the \<^verbatim>\<open>await\<close>).
\<close>

datatype 'a promise = Resolved 'a | Rejected

text \<open>What a synchronous call gives: the value it returns, or the exception it throws.\<close>

datatype 'a outcome = Returned 'a | Threw

text \<open>
  \<^verbatim>\<open>verifyToken\<close> and \<^verbatim>\<open>verifyOrgToken\<close> are imported from
  \<^verbatim>\<open>./api/fetch\<close>: network calls, taken as parameters. Each maps the token to a
  user object, to \<^verbatim>\<open>null\<close>, or rejects.
\<close>

type_synonym verifier = "string \<Rightarrow> jsobj option promise"

section \<open>The auth slice of the store\<close>

text \<open>
  \<^verbatim>\<open>state.auth\<close> as App.tsx reads it: \<^verbatim>\<open>isAuthenticated\<close> and
  \<^verbatim>\<open>isLoading\<close> (line 61), \<^verbatim>\<open>user\<close> (line 32), and the token that
  \<^verbatim>\<open>setCredentials\<close> receives (line 77).
\<close>

record authState =
  isAuthenticated :: bool
  isLoading :: bool
  user :: "jsobj option"
  token :: "string option"

text \<open>The two actions App.tsx dispatches (import on line 10).\<close>

datatype authAction = setCredentials jsobj string | finishInitialLoad

text \<open>
  Modelled from the spec: the reducers of \<^verbatim>\<open>./redux/reducers/authSlice\<close>, which
  is not among the sources. The spec has \<^verbatim>\<open>setCredentials\<close> store the identity and
  the token in the session, and has loading false after every bootstrap outcome, the
  accepting one included; \<^verbatim>\<open>finishInitialLoad\<close> ends the initial load and, on an
  already authenticated session, is a no-op.
\<close>

fun authReducer :: "authState \<Rightarrow> authAction \<Rightarrow> authState" where
  "authReducer s (setCredentials u t) =
     s\<lparr>isAuthenticated := True, isLoading := False, user := Some u, token := Some t\<rparr>"
| "authReducer s finishInitialLoad = s\<lparr>isLoading := False\<rparr>"

text \<open>
  Modelled from the spec: the session at process start, which authSlice's
  \<^verbatim>\<open>initialState\<close> (not among the sources) declares. The spec: created empty,
  loading true until the bootstrap completes.
\<close>

definition initialState :: authState where
  "initialState = \<lparr>isAuthenticated = False, isLoading = True, user = None, token = None\<rparr>"

text \<open>
  The shape every session built by these actions has: it is authenticated exactly when it
  holds a user, and an authenticated session is not loading.
\<close>

definition session_ok :: "authState \<Rightarrow> bool" where
  "session_ok s = ((isAuthenticated s = (user s \<noteq> None)) \<and> \<not> (isAuthenticated s \<and> isLoading s))"

section \<open>The world initAuth runs in\<close>

text \<open>
  \<^verbatim>\<open>localStorage\<close> and the store. A browser that denies the page its storage
  throws (a SecurityError) on every access to \<^verbatim>\<open>localStorage\<close>;
  \<open>storageBlocked\<close> says that this is such a browser.
\<close>

record world =
  localStorage :: "string \<rightharpoonup> string"
  storageBlocked :: bool
  auth :: authState

definition getItem :: "world \<Rightarrow> string \<Rightarrow> string option outcome" where
  "getItem w k = (if storageBlocked w then Threw else Returned (localStorage w k))"

definition removeItem :: "string \<Rightarrow> world \<Rightarrow> world outcome" where
  "removeItem k w =
     (if storageBlocked w then Threw
      else Returned (w\<lparr>localStorage := (localStorage w)(k := None)\<rparr>))"

definition dispatch :: "authAction \<Rightarrow> world \<Rightarrow> world" where
  "dispatch a w = w\<lparr>auth := authReducer (auth w) a\<rparr>"

text \<open>What a run does, in order: the calls it issues and the writes it makes.\<close>

datatype effect =
    VerifyToken string
  | VerifyOrgToken string
  | ConsoleError
  | RemoveItem string
  | Dispatch authAction

fun isVerification :: "effect \<Rightarrow> bool" where
  "isVerification (VerifyToken t) = True"
| "isVerification (VerifyOrgToken t) = True"
| "isVerification e = False"

definition verificationCalls :: "effect list \<Rightarrow> effect list" where
  "verificationCalls es = filter isVerification es"

text \<open>
  A run: its effects, the world it leaves, and how the promise of the async function
  settles.
\<close>

record run =
  effects :: "effect list"
  final :: world
  completion :: "unit promise"

section \<open>initAuth\<close>

text \<open>
  Lines 75 to 81: \<^verbatim>\<open>if (user) { ... setCredentials ... } else { removeItem;
  finishInitialLoad }\<close>, after the effects \<open>es\<close> already made. A
  \<^verbatim>\<open>removeItem\<close> that throws leaves the \<^verbatim>\<open>try\<close> body before the dispatch.
\<close>

definition ifUser :: "effect list \<Rightarrow> jsobj option \<Rightarrow> string \<Rightarrow> world \<Rightarrow> run" where
  "ifUser es u tok w =
     (case u of
        Some usr \<Rightarrow>
          \<lparr>effects = es @ [Dispatch (setCredentials (userWithoutPassword usr) tok)],
           final = dispatch (setCredentials (userWithoutPassword usr) tok) w,
           completion = Resolved ()\<rparr>
      | None \<Rightarrow>
          (case removeItem ''token'' w of
             Threw \<Rightarrow>
               \<lparr>effects = es @ [RemoveItem ''token''], final = w, completion = Rejected\<rparr>
           | Returned w' \<Rightarrow>
               \<lparr>effects = es @ [RemoveItem ''token'', Dispatch finishInitialLoad],
                final = dispatch finishInitialLoad w',
                completion = Resolved ()\<rparr>))"

text \<open>
  The body of the \<^verbatim>\<open>try\<close> (lines 69 to 81). A rejected \<^verbatim>\<open>await\<close> leaves
  the body at once, with completion \<open>Rejected\<close>.
\<close>

definition tryBody :: "verifier \<Rightarrow> verifier \<Rightarrow> string \<Rightarrow> world \<Rightarrow> run" where
  "tryBody verifyToken verifyOrgToken tok w =
     (case verifyToken tok of
        Rejected \<Rightarrow> \<lparr>effects = [VerifyToken tok], final = w, completion = Rejected\<rparr>
      | Resolved (Some usr) \<Rightarrow> ifUser [VerifyToken tok] (Some usr) tok w
      | Resolved None \<Rightarrow>
          (case verifyOrgToken tok of
             Rejected \<Rightarrow>
               \<lparr>effects = [VerifyToken tok, VerifyOrgToken tok], final = w,
                completion = Rejected\<rparr>
           | Resolved u \<Rightarrow> ifUser [VerifyToken tok, VerifyOrgToken tok] u tok w))"

text \<open>
  The \<^verbatim>\<open>catch\<close> block (lines 82 to 86). Nothing catches a
  \<^verbatim>\<open>removeItem\<close> that throws here: the function rejects before the dispatch.
\<close>

definition catchBlock :: "run \<Rightarrow> run" where
  "catchBlock r =
     (case removeItem ''token'' (final r) of
        Threw \<Rightarrow>
          \<lparr>effects = effects r @ [ConsoleError, RemoveItem ''token''], final = final r,
           completion = Rejected\<rparr>
      | Returned w' \<Rightarrow>
          \<lparr>effects = effects r @ [ConsoleError, RemoveItem ''token'', Dispatch finishInitialLoad],
           final = dispatch finishInitialLoad w',
           completion = Resolved ()\<rparr>)"

text \<open>The \<^verbatim>\<open>else\<close> branch (lines 87 to 89).\<close>

definition elseBranch :: "world \<Rightarrow> run" where
  "elseBranch w =
     \<lparr>effects = [Dispatch finishInitialLoad], final = dispatch finishInitialLoad w,
      completion = Resolved ()\<rparr>"

text \<open>
  \<^verbatim>\<open>initAuth\<close> (lines 64 to 90). The condition \<^verbatim>\<open>token && !isAuthenticated\<close>
  is JavaScript truthiness: \<^verbatim>\<open>null\<close> and the empty string are both falsy.
  \<^verbatim>\<open>isAuthenticated\<close> is the value selected from the store (line 61); the effect
  runs again whenever it changes (line 93). The read of line 65 stands before the
  \<^verbatim>\<open>try\<close>, and the call \<^verbatim>\<open>initAuth()\<close> of line 92 has no handler: when the
  read throws, the function rejects with nothing done.
\<close>

definition initAuth :: "verifier \<Rightarrow> verifier \<Rightarrow> world \<Rightarrow> run" where
  "initAuth verifyToken verifyOrgToken w =
     (case getItem w ''token'' of
        Threw \<Rightarrow> \<lparr>effects = [], final = w, completion = Rejected\<rparr>
      | Returned None \<Rightarrow> elseBranch w
      | Returned (Some tok) \<Rightarrow>
          if tok \<noteq> [] \<and> \<not> isAuthenticated (auth w) then
            (case completion (tryBody verifyToken verifyOrgToken tok w) of
               Rejected \<Rightarrow> catchBlock (tryBody verifyToken verifyOrgToken tok w)
             | Resolved x \<Rightarrow> tryBody verifyToken verifyOrgToken tok w)
          else elseBranch w)"

section \<open>DashboardRedirect\<close>

text \<open>
  What the effect of \<^verbatim>\<open>DashboardRedirect\<close> (lines 36 to 52) does at once:
  schedule a preload with \<^verbatim>\<open>setTimeout(..., 0)\<close>, or call
  \<^verbatim>\<open>navigate(route, { replace })\<close>.
\<close>

datatype redirectEffect = SetTimeoutPreload string | Navigate string bool

text \<open>
  The \<^verbatim>\<open>switch (user.role)\<close> of lines 38 to 49: the timers it sets and the
  route it returns. \<^verbatim>\<open>case\<close> compares with \<^verbatim>\<open>===\<close>, so only the
  string itself matches.
\<close>

definition routeSwitch :: "jsobj \<Rightarrow> redirectEffect list \<times> string" where
  "routeSwitch usr =
     (if getProp usr ''role'' = Some (JStr ''Admin'') then
        ([SetTimeoutPreload ''/dashboard/admin''], ''/dashboard/admin/tasks'')
      else if getProp usr ''role'' = Some (JStr ''Organisation'') then
        ([SetTimeoutPreload ''/dashboard/organisation''], ''/dashboard/organisation'')
      else ([], ''/dashboard/user''))"

definition DashboardRedirect :: "jsobj option \<Rightarrow> redirectEffect list" where
  "DashboardRedirect u =
     (case u of
        None \<Rightarrow> []
      | Some usr \<Rightarrow> fst (routeSwitch usr) @ [Navigate (snd (routeSwitch usr)) True])"

text \<open>
  What is observed when the effect runs and its timers fire afterwards:
  \<^verbatim>\<open>preloadRoute\<close> (from \<^verbatim>\<open>./utils/preload\<close>, a parameter) is called only
  from the timer callbacks, after the effect has returned.
\<close>

datatype observed = Navigated string bool | Preloaded string "unit promise"

fun atOnce :: "redirectEffect \<Rightarrow> observed list" where
  "atOnce (SetTimeoutPreload p) = []"
| "atOnce (Navigate r b) = [Navigated r b]"

fun whenTimerFires :: "(string \<Rightarrow> unit promise) \<Rightarrow> redirectEffect \<Rightarrow> observed list" where
  "whenTimerFires preloadRoute (SetTimeoutPreload p) = [Preloaded p (preloadRoute p)]"
| "whenTimerFires preloadRoute (Navigate r b) = []"

definition runDashboardRedirect :: "(string \<Rightarrow> unit promise) \<Rightarrow> jsobj option \<Rightarrow> observed list" where
  "runDashboardRedirect preloadRoute u =
     concat (map atOnce (DashboardRedirect u)) @
     concat (map (whenTimerFires preloadRoute) (DashboardRedirect u))"

fun isNavigation :: "observed \<Rightarrow> bool" where
  "isNavigation (Navigated r b) = True"
| "isNavigation (Preloaded p x) = False"

section \<open>The route guard\<close>

datatype authorization = Unknown | Denied | Allowed

text \<open>
  Modelled from the spec: the decision of \<^verbatim>\<open>./components/ProtectedRoute\<close>, which
  is not among the sources (App.tsx only mounts it, lines 113 to 119). The spec's
  transition function: loading gives Unknown; not loading and no identity gives Denied;
  an identity whose role is not among the required roles gives Denied; an identity whose
  role is among them gives Allowed.
\<close>

definition authorize :: "authState \<Rightarrow> string list \<Rightarrow> authorization" where
  "authorize s requiredRoles =
     (if isLoading s then Unknown
      else case user s of
        None \<Rightarrow> Denied
      | Some usr \<Rightarrow>
          (case getProp usr ''role'' of
             Some (JStr r) \<Rightarrow> if r \<in> set requiredRoles then Allowed else Denied
           | _ \<Rightarrow> Denied))"

datatype guardView = Placeholder | RedirectTo string | GuardedSubtree

text \<open>
  Modelled from the spec: what \<^verbatim>\<open>ProtectedRoute\<close> renders for each decision. The
  spec names no path for the unauthenticated entry route, so it is the parameter
  \<open>entryRoute\<close>.
\<close>

definition ProtectedRoute :: "string \<Rightarrow> authState \<Rightarrow> string list \<Rightarrow> guardView" where
  "ProtectedRoute entryRoute s allowedRoles =
     (case authorize s allowedRoles of
        Unknown \<Rightarrow> Placeholder
      | Denied \<Rightarrow> RedirectTo entryRoute
      | Allowed \<Rightarrow> GuardedSubtree)"

section \<open>What App renders\<close>

text \<open>
  The \<^verbatim>\<open>Route\<close> of the table (lines 108 to 144) that the router matched for the
  current location; the matching itself is react-router's.
\<close>

datatype matched = RootPath | AuthPath | GuardedPath | AnyOtherPath

datatype element =
    LoadingSpinner
  | LandingPage
  | Auth
  | NavigateTo string bool
  | ProtectedRouteElement "string list"

definition Routes :: "authState \<Rightarrow> matched \<Rightarrow> element" where
  "Routes s m =
     (case m of
        RootPath \<Rightarrow> LandingPage
      | AuthPath \<Rightarrow> if isAuthenticated s then NavigateTo ''/dashboard'' True else Auth
      | GuardedPath \<Rightarrow>
          ProtectedRouteElement
            [''Admin'', ''Organisation'', ''Project Manager'', ''Team Manager'', ''Team Member'']
      | AnyOtherPath \<Rightarrow> NavigateTo ''/'' True)"

text \<open>Lines 95 to 152: the spinner while loading, the router otherwise.\<close>

definition App :: "authState \<Rightarrow> matched \<Rightarrow> element" where
  "App s m = (if isLoading s then LoadingSpinner else Routes s m)"

section \<open>Concrete inputs\<close>

text \<open>The spec's example: token \<^verbatim>\<open>tok-123\<close>, an Admin user with a password.\<close>

definition adminUser :: jsobj where
  "adminUser = [(''id'', JNum 7), (''role'', JStr ''Admin''), (''password'', JStr ''x'')]"

definition orgAccount :: jsobj where
  "orgAccount = [(''id'', JNum 3), (''role'', JStr ''Organisation'')]"

text \<open>A user object that carries a second credential beside the password.\<close>

definition hashedUser :: jsobj where
  "hashedUser =
     [(''id'', JNum 7), (''role'', JStr ''Admin''), (''password'', JStr ''x''),
      (''passwordHash'', JStr ''5f4dcc3b'')]"

definition freshWorld :: world where
  "freshWorld =
     \<lparr>localStorage = [''token'' \<mapsto> ''tok-123''], storageBlocked = False,
      auth = initialState\<rparr>"


text \<open>The same start in a browser that denies access to storage.\<close>

definition blockedWorld :: world where
  "blockedWorld =
     \<lparr>localStorage = [''token'' \<mapsto> ''tok-123''], storageBlocked = True,
      auth = initialState\<rparr>"

definition resolvesHashed :: verifier where
  "resolvesHashed t = Resolved (Some hashedUser)"

definition resolvesAdmin :: verifier where
  "resolvesAdmin t = Resolved (Some adminUser)"

definition resolvesOrg :: verifier where
  "resolvesOrg t = Resolved (Some orgAccount)"

definition resolvesNull :: verifier where
  "resolvesNull t = Resolved None"

definition rejects :: verifier where
  "rejects t = Rejected"

text \<open>
  A session that is logged in while \<^verbatim>\<open>localStorage\<close> holds no token.
\<close>

definition loggedInNoToken :: world where
  "loggedInNoToken =
     \<lparr>localStorage = Map.empty, storageBlocked = False,
      auth = \<lparr>isAuthenticated = True, isLoading = False, user = Some orgAccount,
              token = Some ''tok-123''\<rparr>\<rparr>"

definition loggedOut :: authState where
  "loggedOut = \<lparr>isAuthenticated = False, isLoading = False, user = None, token = None\<rparr>"

section \<open>Supporting lemmas\<close>

subsection \<open>The session invariant\<close>

lemma session_ok_initialState: "session_ok initialState"
  by (simp add: session_ok_def initialState_def)

lemma session_ok_authReducer: "session_ok s \<Longrightarrow> session_ok (authReducer s a)"
  by (cases a) (auto simp: session_ok_def)

lemma session_ok_initAuth:
  "session_ok (auth w) \<Longrightarrow> session_ok (auth (final (initAuth vT vO w)))"
  by (auto simp: initAuth_def tryBody_def ifUser_def catchBlock_def elseBranch_def dispatch_def
      removeItem_def getItem_def session_ok_def
      split: promise.splits option.splits outcome.splits if_splits)

subsection \<open>Storage that can be read\<close>

lemma getItem_Returned:
  "getItem w k = Returned v \<Longrightarrow> \<not> storageBlocked w \<and> localStorage w k = v"
  by (simp add: getItem_def split: if_splits)

lemma getItem_Threw: "(getItem w k = Threw) = storageBlocked w"
  by (simp add: getItem_def)

subsection \<open>The two branches of initAuth\<close>

lemma initAuth_falsy_token:
  "getItem w ''token'' = Returned None \<or> getItem w ''token'' = Returned (Some [])
     \<or> (isAuthenticated (auth w) \<and> \<not> storageBlocked w)
   \<Longrightarrow> initAuth vT vO w = elseBranch w"
  by (auto simp: initAuth_def getItem_def split: option.splits)

lemma initAuth_verifies:
  assumes "getItem w ''token'' = Returned (Some tok)" and "tok \<noteq> []"
    and "\<not> isAuthenticated (auth w)"
  shows "initAuth vT vO w =
    (case vT tok of
       Rejected \<Rightarrow>
         catchBlock \<lparr>effects = [VerifyToken tok], final = w, completion = Rejected\<rparr>
     | Resolved (Some usr) \<Rightarrow> ifUser [VerifyToken tok] (Some usr) tok w
     | Resolved None \<Rightarrow>
        (case vO tok of
           Rejected \<Rightarrow>
             catchBlock
               \<lparr>effects = [VerifyToken tok, VerifyOrgToken tok], final = w,
                completion = Rejected\<rparr>
         | Resolved u \<Rightarrow> ifUser [VerifyToken tok, VerifyOrgToken tok] u tok w))"
proof -
  from assms(1) have "\<not> storageBlocked w"
    by (simp add: getItem_Returned)
  with assms show ?thesis
    by (simp add: initAuth_def tryBody_def ifUser_def removeItem_def
        split: promise.splits option.splits)
qed

lemma initAuth_authenticated:
  assumes "session_ok (auth w)" and "isAuthenticated (auth w)"
  shows "initAuth vT vO w =
    \<lparr>effects = (if storageBlocked w then [] else [Dispatch finishInitialLoad]),
     final = w,
     completion = (if storageBlocked w then Rejected else Resolved ())\<rparr>"
proof -
  from assms have "\<not> isLoading (auth w)"
    by (auto simp: session_ok_def)
  then have "dispatch finishInitialLoad w = w"
    by (simp add: dispatch_def)
  with assms(2) show ?thesis
    by (simp add: initAuth_def elseBranch_def getItem_def split: option.splits)
qed

subsection \<open>The rest pattern\<close>

lemma getProp_userWithoutPassword:
  "getProp (userWithoutPassword u) k = (if k = ''password'' then None else getProp u k)"
  unfolding getProp_def userWithoutPassword_def
  by (induction u) auto

lemma keys_userWithoutPassword:
  "fst ` set (userWithoutPassword u) = fst ` set u - {''password''}"
  unfolding userWithoutPassword_def by auto

section \<open>The claims\<close>

subsection \<open>C1: the user domain comes first\<close>

text \<open>
  C1. With a non-empty token in storage and a session that is not authenticated,
  \<^verbatim>\<open>verifyToken\<close> is the first thing the run does; \<^verbatim>\<open>verifyOrgToken\<close> is
  called exactly when \<^verbatim>\<open>verifyToken\<close> resolved to \<^verbatim>\<open>null\<close>; and whenever
  \<^verbatim>\<open>verifyToken\<close> resolves to a user, whatever \<^verbatim>\<open>verifyOrgToken\<close> would
  answer, the run is that one call and the dispatch of that user (without its password),
  and that user is the one in the session.
\<close>

theorem initAuth_user_domain_first:
  assumes "getItem w ''token'' = Returned (Some tok)" and "tok \<noteq> []"
    and "\<not> isAuthenticated (auth w)"
  shows "hd (effects (initAuth vT vO w)) = VerifyToken tok
    \<and> verificationCalls (effects (initAuth vT vO w)) =
        (if vT tok = Resolved None then [VerifyToken tok, VerifyOrgToken tok]
         else [VerifyToken tok])
    \<and> (\<forall>u. vT tok = Resolved (Some u) \<longrightarrow>
          effects (initAuth vT vO w) =
            [VerifyToken tok, Dispatch (setCredentials (userWithoutPassword u) tok)]
        \<and> user (auth (final (initAuth vT vO w))) = Some (userWithoutPassword u))"
proof -
  from assms(1) have "\<not> storageBlocked w"
    by (simp add: getItem_Returned)
  then show ?thesis
    unfolding initAuth_verifies [OF assms]
    by (auto simp: ifUser_def catchBlock_def removeItem_def verificationCalls_def
        dispatch_def split: promise.splits option.splits)
qed

text \<open>A token that both domains resolve: the Admin user is stored, not the organisation.\<close>

theorem initAuth_user_domain_first_witness:
  "getItem freshWorld ''token'' = Returned (Some ''tok-123'')
   \<and> resolvesAdmin ''tok-123'' = Resolved (Some adminUser)
   \<and> resolvesOrg ''tok-123'' = Resolved (Some orgAccount)
   \<and> verificationCalls (effects (initAuth resolvesAdmin resolvesOrg freshWorld)) =
       [VerifyToken ''tok-123'']
   \<and> user (auth (final (initAuth resolvesAdmin resolvesOrg freshWorld))) =
       Some [(''id'', JNum 7), (''role'', JStr ''Admin'')]"
  using initAuth_user_domain_first [of freshWorld "''tok-123''" resolvesAdmin resolvesOrg]
  by (simp add: freshWorld_def getItem_def initialState_def resolvesAdmin_def resolvesOrg_def
      adminUser_def orgAccount_def userWithoutPassword_def verificationCalls_def)

subsection \<open>C2: no token in storage\<close>




subsection \<open>C3: fail closed\<close>

text \<open>
  C3. With a non-empty stored token and an unauthenticated session, if
  \<^verbatim>\<open>verifyToken\<close> rejects, or resolves to \<^verbatim>\<open>null\<close> and
  \<^verbatim>\<open>verifyOrgToken\<close> resolves to \<^verbatim>\<open>null\<close> or rejects, then the token is
  removed from storage, the session ends with no identity and loading false, and the
  promise of \<^verbatim>\<open>initAuth\<close> resolves: no rejection escapes.
\<close>

theorem initAuth_fail_closed:
  assumes "session_ok (auth w)"
    and "getItem w ''token'' = Returned (Some tok)" and "tok \<noteq> []"
    and "\<not> isAuthenticated (auth w)"
    and "vT tok = Rejected
         \<or> (vT tok = Resolved None \<and> (vO tok = Resolved None \<or> vO tok = Rejected))"
  shows "getItem (final (initAuth vT vO w)) ''token'' = Returned None
    \<and> RemoveItem ''token'' \<in> set (effects (initAuth vT vO w))
    \<and> last (effects (initAuth vT vO w)) = Dispatch finishInitialLoad
    \<and> user (auth (final (initAuth vT vO w))) = None
    \<and> \<not> isAuthenticated (auth (final (initAuth vT vO w)))
    \<and> \<not> isLoading (auth (final (initAuth vT vO w)))
    \<and> completion (initAuth vT vO w) = Resolved ()"
proof -
  from assms(1,4) have "user (auth w) = None"
    by (simp add: session_ok_def)
  moreover from assms(2) have "\<not> storageBlocked w"
    by (simp add: getItem_Returned)
  ultimately show ?thesis
    using assms(4,5) unfolding initAuth_verifies [OF assms(2,3,4)]
    by (auto simp: ifUser_def catchBlock_def dispatch_def removeItem_def getItem_def)
qed

theorem initAuth_fail_closed_witness:
  "session_ok (auth freshWorld)
   \<and> getItem freshWorld ''token'' = Returned (Some ''tok-123'')
   \<and> resolvesNull ''tok-123'' = Resolved None \<and> rejects ''tok-123'' = Rejected
   \<and> getItem (final (initAuth resolvesNull rejects freshWorld)) ''token'' = Returned None
   \<and> user (auth (final (initAuth resolvesNull rejects freshWorld))) = None
   \<and> \<not> isLoading (auth (final (initAuth resolvesNull rejects freshWorld)))"
  using initAuth_fail_closed [of freshWorld "''tok-123''" resolvesNull rejects]
  by (simp add: freshWorld_def getItem_def initialState_def session_ok_def resolvesNull_def
      rejects_def)

subsection \<open>C4: a rejected verification\<close>

text \<open>
  C4, as amended. A \<^verbatim>\<open>verifyToken\<close> that resolves to \<^verbatim>\<open>null\<close> is followed
  by \<^verbatim>\<open>verifyOrgToken\<close>. A \<^verbatim>\<open>verifyToken\<close> that rejects is not: the
  \<^verbatim>\<open>catch\<close> block logs, removes the token and finishes the load, and the
  organisation domain is never asked. A rejecting \<^verbatim>\<open>verifyOrgToken\<close> ends the same
  way.
\<close>

theorem initAuth_rejection_aborts:
  assumes "getItem w ''token'' = Returned (Some tok)" and "tok \<noteq> []"
    and "\<not> isAuthenticated (auth w)"
  shows "(vT tok = Rejected \<longrightarrow>
            effects (initAuth vT vO w) =
              [VerifyToken tok, ConsoleError, RemoveItem ''token'', Dispatch finishInitialLoad]
          \<and> getItem (final (initAuth vT vO w)) ''token'' = Returned None
          \<and> auth (final (initAuth vT vO w)) = (auth w)\<lparr>isLoading := False\<rparr>)
    \<and> (vT tok = Resolved None \<longrightarrow>
          take 2 (effects (initAuth vT vO w)) = [VerifyToken tok, VerifyOrgToken tok])
    \<and> (vT tok = Resolved None \<and> vO tok = Rejected \<longrightarrow>
            effects (initAuth vT vO w) =
              [VerifyToken tok, VerifyOrgToken tok, ConsoleError, RemoveItem ''token'',
               Dispatch finishInitialLoad]
          \<and> getItem (final (initAuth vT vO w)) ''token'' = Returned None
          \<and> auth (final (initAuth vT vO w)) = (auth w)\<lparr>isLoading := False\<rparr>)"
proof -
  from assms(1) have "\<not> storageBlocked w"
    by (simp add: getItem_Returned)
  then show ?thesis
    unfolding initAuth_verifies [OF assms]
    by (auto simp: ifUser_def catchBlock_def dispatch_def removeItem_def getItem_def
        split: promise.splits option.splits)
qed

theorem initAuth_rejection_aborts_witness:
  "getItem freshWorld ''token'' = Returned (Some ''tok-123'')
   \<and> rejects ''tok-123'' = Rejected
   \<and> effects (initAuth rejects resolvesOrg freshWorld) =
       [VerifyToken ''tok-123'', ConsoleError, RemoveItem ''token'', Dispatch finishInitialLoad]
   \<and> getItem (final (initAuth rejects resolvesOrg freshWorld)) ''token'' = Returned None"
  using initAuth_rejection_aborts [of freshWorld "''tok-123''" rejects resolvesOrg]
  by (simp add: freshWorld_def getItem_def initialState_def rejects_def)

text \<open>
  C4 as first stated has a rejecting \<^verbatim>\<open>verifyToken\<close> treated like one that resolves
  to \<^verbatim>\<open>null\<close>. With an organisation token the two runs differ: after the rejection
  the organisation is never asked and the session stays empty; after \<^verbatim>\<open>null\<close> the
  organisation account is accepted.
\<close>

theorem initAuth_user_rejection_counterexample:
  "effects (initAuth rejects resolvesOrg freshWorld) =
     [VerifyToken ''tok-123'', ConsoleError, RemoveItem ''token'', Dispatch finishInitialLoad]
   \<and> user (auth (final (initAuth rejects resolvesOrg freshWorld))) = None
   \<and> effects (initAuth resolvesNull resolvesOrg freshWorld) =
     [VerifyToken ''tok-123'', VerifyOrgToken ''tok-123'',
      Dispatch (setCredentials orgAccount ''tok-123'')]
   \<and> user (auth (final (initAuth resolvesNull resolvesOrg freshWorld))) = Some orgAccount"
  by (simp add: initAuth_def tryBody_def ifUser_def catchBlock_def dispatch_def removeItem_def
      getItem_def freshWorld_def initialState_def rejects_def resolvesOrg_def resolvesNull_def
      orgAccount_def userWithoutPassword_def)

subsection \<open>C5: loading ends false when storage can be read\<close>

text \<open>
  C5, as amended. Every run of \<^verbatim>\<open>initAuth\<close> in a browser that allows access to
  \<^verbatim>\<open>localStorage\<close>, so that the read of line 65 does not throw, whatever storage
  holds, whatever the session is
  and whatever the two verifications answer (a user, \<^verbatim>\<open>null\<close> or a rejection),
  dispatches \<^verbatim>\<open>setCredentials\<close> or \<^verbatim>\<open>finishInitialLoad\<close> last, leaves the
  session with loading false, and its promise resolves. When the read throws, the function
  rejects before any dispatch and the world, the loading flag included, is as it was.
\<close>

theorem initAuth_loading_false:
  "(getItem w ''token'' \<noteq> Threw \<longrightarrow>
        \<not> isLoading (auth (final (initAuth vT vO w)))
      \<and> completion (initAuth vT vO w) = Resolved ()
      \<and> (\<exists>a. last (effects (initAuth vT vO w)) = Dispatch a))
   \<and> (getItem w ''token'' = Threw \<longrightarrow>
        effects (initAuth vT vO w) = []
      \<and> final (initAuth vT vO w) = w
      \<and> completion (initAuth vT vO w) = Rejected)"
  by (auto simp: initAuth_def tryBody_def ifUser_def catchBlock_def elseBranch_def dispatch_def
      getItem_def removeItem_def split: promise.splits option.splits)

text \<open>Both verifications reject: the run still ends with loading false.\<close>

theorem initAuth_loading_false_witness:
  "getItem freshWorld ''token'' \<noteq> Threw
   \<and> isLoading (auth freshWorld)
   \<and> \<not> isLoading (auth (final (initAuth rejects rejects freshWorld)))
   \<and> completion (initAuth rejects rejects freshWorld) = Resolved ()
   \<and> \<not> isLoading (auth (final (initAuth resolvesAdmin resolvesOrg freshWorld)))"
  using initAuth_loading_false [of freshWorld rejects rejects]
    initAuth_loading_false [of freshWorld resolvesAdmin resolvesOrg]
  by (simp add: freshWorld_def getItem_def initialState_def)

text \<open>
  C5 as first stated promises loading false after every execution, an exception included.
  Where the browser denies access to storage, the read of line 65 throws outside the
  \<^verbatim>\<open>try\<close>: nothing is dispatched, the promise rejects and loading stays true.
\<close>

theorem initAuth_loading_counterexample:
  "getItem blockedWorld ''token'' = Threw
   \<and> effects (initAuth resolvesAdmin resolvesOrg blockedWorld) = []
   \<and> completion (initAuth resolvesAdmin resolvesOrg blockedWorld) = Rejected
   \<and> isLoading (auth (final (initAuth resolvesAdmin resolvesOrg blockedWorld)))"
  by (simp add: initAuth_def getItem_def blockedWorld_def initialState_def)

subsection \<open>C6: the stored user has no password property\<close>

text \<open>
  C6, as amended. When a verification resolves to a user (the user domain, or the
  organisation domain after the user domain answered \<^verbatim>\<open>null\<close>), the last effect is
  the dispatch of \<^verbatim>\<open>setCredentials\<close> with that user minus its own
  \<^verbatim>\<open>password\<close> property and the token read from storage; the session then holds
  exactly that object and that token. The stored object has no \<^verbatim>\<open>password\<close>
  property and agrees with the resolved user on every other property, whatever that
  property holds.
\<close>

theorem initAuth_strips_password:
  assumes "getItem w ''token'' = Returned (Some tok)" and "tok \<noteq> []"
    and "\<not> isAuthenticated (auth w)"
    and "vT tok = Resolved (Some u) \<or> (vT tok = Resolved None \<and> vO tok = Resolved (Some u))"
  shows "last (effects (initAuth vT vO w)) = Dispatch (setCredentials (userWithoutPassword u) tok)
    \<and> user (auth (final (initAuth vT vO w))) = Some (userWithoutPassword u)
    \<and> token (auth (final (initAuth vT vO w))) = Some tok
    \<and> getProp (userWithoutPassword u) ''password'' = None
    \<and> ''password'' \<notin> fst ` set (userWithoutPassword u)
    \<and> (\<forall>k. k \<noteq> ''password'' \<longrightarrow> getProp (userWithoutPassword u) k = getProp u k)
    \<and> getItem (final (initAuth vT vO w)) ''token'' = Returned (Some tok)"
  using assms(1,4) unfolding initAuth_verifies [OF assms(1,2,3)]
  by (auto simp: ifUser_def dispatch_def getItem_def getProp_userWithoutPassword
      keys_userWithoutPassword split: if_splits)

text \<open>The spec's example: \<^verbatim>\<open>{id: 7, role: "Admin", password: "x"}\<close>.\<close>

theorem initAuth_strips_password_witness:
  "getItem freshWorld ''token'' = Returned (Some ''tok-123'')
   \<and> resolvesAdmin ''tok-123'' = Resolved (Some adminUser)
   \<and> getProp adminUser ''password'' = Some (JStr ''x'')
   \<and> user (auth (final (initAuth resolvesAdmin resolvesOrg freshWorld))) =
       Some [(''id'', JNum 7), (''role'', JStr ''Admin'')]
   \<and> token (auth (final (initAuth resolvesAdmin resolvesOrg freshWorld))) = Some ''tok-123''"
  using initAuth_strips_password [of freshWorld "''tok-123''" resolvesAdmin adminUser resolvesOrg]
  by (simp add: freshWorld_def getItem_def initialState_def resolvesAdmin_def adminUser_def
      userWithoutPassword_def getProp_def)

text \<open>
  C6 as first stated has a session that never holds credential material. Only the
  property named \<^verbatim>\<open>password\<close> is left out: a user object that also carries a
  password hash is stored with the hash.
\<close>

theorem initAuth_credential_counterexample:
  "getProp hashedUser ''passwordHash'' = Some (JStr ''5f4dcc3b'')
   \<and> effects (initAuth resolvesHashed resolvesNull freshWorld) =
       [VerifyToken ''tok-123'',
        Dispatch (setCredentials
          [(''id'', JNum 7), (''role'', JStr ''Admin''), (''passwordHash'', JStr ''5f4dcc3b'')]
          ''tok-123'')]
   \<and> user (auth (final (initAuth resolvesHashed resolvesNull freshWorld))) =
       Some [(''id'', JNum 7), (''role'', JStr ''Admin''), (''passwordHash'', JStr ''5f4dcc3b'')]"
  by (simp add: initAuth_def tryBody_def ifUser_def dispatch_def getItem_def freshWorld_def
      initialState_def resolvesHashed_def hashedUser_def userWithoutPassword_def getProp_def)

subsection \<open>C7: the landing route\<close>

text \<open>
  C7. The route \<^verbatim>\<open>DashboardRedirect\<close> navigates to is
  \<^verbatim>\<open>/dashboard/admin/tasks\<close> for role Admin, \<^verbatim>\<open>/dashboard/organisation\<close> for
  role Organisation and \<^verbatim>\<open>/dashboard/user\<close> for anything else. Two users with the
  same role give the same effects. The navigation is the last thing the effect does, with
  \<^verbatim>\<open>replace: true\<close>; and whatever \<^verbatim>\<open>preloadRoute\<close> does when its timer
  fires, the one navigation observed is that one.
\<close>

theorem DashboardRedirect_route:
  "snd (routeSwitch usr) =
     (if getProp usr ''role'' = Some (JStr ''Admin'') then ''/dashboard/admin/tasks''
      else if getProp usr ''role'' = Some (JStr ''Organisation'') then ''/dashboard/organisation''
      else ''/dashboard/user'')
   \<and> (getProp usr' ''role'' = getProp usr ''role'' \<longrightarrow>
        DashboardRedirect (Some usr') = DashboardRedirect (Some usr))
   \<and> last (DashboardRedirect (Some usr)) = Navigate (snd (routeSwitch usr)) True
   \<and> filter isNavigation (runDashboardRedirect preloadRoute (Some usr)) =
        [Navigated (snd (routeSwitch usr)) True]"
  by (simp add: routeSwitch_def DashboardRedirect_def runDashboardRedirect_def)

theorem DashboardRedirect_route_witness:
  "snd (routeSwitch adminUser) = ''/dashboard/admin/tasks''
   \<and> snd (routeSwitch orgAccount) = ''/dashboard/organisation''
   \<and> snd (routeSwitch [(''id'', JNum 9), (''role'', JStr ''Team Member'')]) = ''/dashboard/user''
   \<and> getProp (userWithoutPassword adminUser) ''role'' = getProp adminUser ''role''
   \<and> DashboardRedirect (Some (userWithoutPassword adminUser)) =
       [SetTimeoutPreload ''/dashboard/admin'', Navigate ''/dashboard/admin/tasks'' True]"
  using DashboardRedirect_route [of adminUser "userWithoutPassword adminUser"]
    DashboardRedirect_route [of orgAccount orgAccount]
    DashboardRedirect_route [of "[(''id'', JNum 9), (''role'', JStr ''Team Member'')]" "[]"]
  by (simp add: adminUser_def orgAccount_def getProp_def userWithoutPassword_def
      DashboardRedirect_def routeSwitch_def)

subsection \<open>C8: an authenticated session is left alone\<close>

text \<open>
  C8. On a session that is already authenticated, \<^verbatim>\<open>initAuth\<close> issues no
  verification call, only dispatches \<^verbatim>\<open>finishInitialLoad\<close> (nothing at all when
  the read of storage throws), and leaves storage and session as they were. In particular
  a second run, after a first run that ended authenticated, issues no verification call
  and changes nothing.
\<close>

theorem initAuth_idempotent:
  assumes "session_ok (auth w)"
  shows "(isAuthenticated (auth w) \<longrightarrow>
            verificationCalls (effects (initAuth vT vO w)) = []
          \<and> effects (initAuth vT vO w) =
              (if getItem w ''token'' = Threw then [] else [Dispatch finishInitialLoad])
          \<and> final (initAuth vT vO w) = w)
    \<and> (isAuthenticated (auth (final (initAuth vT vO w))) \<longrightarrow>
            verificationCalls (effects (initAuth vT' vO' (final (initAuth vT vO w)))) = []
          \<and> final (initAuth vT' vO' (final (initAuth vT vO w))) = final (initAuth vT vO w))"
  using initAuth_authenticated [OF assms, of vT vO]
    initAuth_authenticated [OF session_ok_initAuth [OF assms], of vT vO vT' vO']
  by (simp add: verificationCalls_def getItem_Threw)

theorem initAuth_idempotent_witness:
  "session_ok (auth freshWorld)
   \<and> isAuthenticated (auth (final (initAuth resolvesAdmin resolvesOrg freshWorld)))
   \<and> verificationCalls (effects (initAuth resolvesAdmin resolvesOrg
        (final (initAuth resolvesAdmin resolvesOrg freshWorld)))) = []
   \<and> final (initAuth resolvesAdmin resolvesOrg
        (final (initAuth resolvesAdmin resolvesOrg freshWorld))) =
      final (initAuth resolvesAdmin resolvesOrg freshWorld)"
proof -
  have ok: "session_ok (auth freshWorld)"
    by (simp add: freshWorld_def initialState_def session_ok_def)
  have au: "isAuthenticated (auth (final (initAuth resolvesAdmin resolvesOrg freshWorld)))"
    by (simp add: initAuth_def tryBody_def ifUser_def dispatch_def getItem_def freshWorld_def
        initialState_def resolvesAdmin_def)
  from ok au
    initAuth_idempotent [OF ok, of resolvesAdmin resolvesOrg resolvesAdmin resolvesOrg]
  show ?thesis by simp
qed

subsection \<open>C9: the route guard\<close>

text \<open>
  C9. The guard answers Allowed exactly when the session is not loading and holds a user
  whose role is among the required roles, Unknown exactly when the session is loading,
  and Denied in every other case. Denied, for a missing identity and for a wrong role
  alike, renders the redirect to the one entry route; Unknown renders the placeholder.
\<close>

theorem authorize_decision:
  "(authorize s requiredRoles = Allowed) =
      (\<not> isLoading s \<and>
       (\<exists>usr r. user s = Some usr \<and> getProp usr ''role'' = Some (JStr r)
          \<and> r \<in> set requiredRoles))
   \<and> (authorize s requiredRoles = Unknown) = isLoading s
   \<and> (authorize s requiredRoles = Denied) =
      (\<not> isLoading s \<and>
       \<not> (\<exists>usr r. user s = Some usr \<and> getProp usr ''role'' = Some (JStr r)
            \<and> r \<in> set requiredRoles))
   \<and> (ProtectedRoute entryRoute s requiredRoles = RedirectTo entryRoute) =
      (authorize s requiredRoles = Denied)
   \<and> (ProtectedRoute entryRoute s requiredRoles = Placeholder) = isLoading s"
  by (auto simp: authorize_def ProtectedRoute_def split: option.splits jsval.splits)

text \<open>No identity and a wrong role are redirected to the same place.\<close>

theorem authorize_decision_witness:
  "ProtectedRoute ''/auth'' loggedOut [''Admin''] = RedirectTo ''/auth''
   \<and> ProtectedRoute ''/auth'' (auth loggedInNoToken) [''Admin''] = RedirectTo ''/auth''
   \<and> authorize (auth loggedInNoToken) [''Admin'', ''Organisation''] = Allowed
   \<and> authorize initialState [''Admin''] = Unknown"
  using authorize_decision [of loggedOut "[''Admin'']" "''/auth''"]
    authorize_decision [of "auth loggedInNoToken" "[''Admin'']" "''/auth''"]
    authorize_decision [of "auth loggedInNoToken" "[''Admin'', ''Organisation'']" "''/auth''"]
    authorize_decision [of initialState "[''Admin'']" "''/auth''"]
  by (simp add: loggedOut_def loggedInNoToken_def initialState_def orgAccount_def getProp_def)

subsection \<open>C10: the auth route\<close>

text \<open>
  C10. For the \<^verbatim>\<open>/auth\<close> route the router's element is the redirect to
  \<^verbatim>\<open>/dashboard\<close> with \<^verbatim>\<open>replace\<close> when the session is authenticated, and
  the Auth page when it is not. \<^verbatim>\<open>App\<close> mounts the router only once loading is
  over; until then it renders the spinner.
\<close>

theorem App_auth_route:
  "Routes s AuthPath = (if isAuthenticated s then NavigateTo ''/dashboard'' True else Auth)
   \<and> App s AuthPath =
       (if isLoading s then LoadingSpinner
        else if isAuthenticated s then NavigateTo ''/dashboard'' True else Auth)"
  by (simp add: Routes_def App_def)

end
